theory Spec2Isabelle
  imports Complex_Main "HOL-Library.Sublist"
begin

section \<open>The decoration passes of \<^verbatim>\<open>vyper/ast/annotation.py\<close>\<close>

text \<open>
  The module decorates a Python syntax tree in three traversals and one entry point:
  \<^verbatim>\<open>AnnotatingVisitor\<close> (identity and classification), \<^verbatim>\<open>RewriteUnarySubVisitor\<close>
  (folding of negated numeric literals), \<^verbatim>\<open>AddSourceOffsetVisitor\<close> (source spans) and
  \<^verbatim>\<open>annotate_python_ast\<close>. All three visitors are \<^verbatim>\<open>ast.NodeTransformer\<close>s of the host
  library, for Python 3.8 and later, where every literal is an \<^verbatim>\<open>ast.Constant\<close> and
  \<^verbatim>\<open>ast.Num\<close> is a deprecated alias whose instance check looks at the constant's value.

  The input is taken to be a tree: no node object occurs at two positions. Mutation in
  place becomes a function from the tree before to the tree after; an exception becomes
  the left summand of the result.
\<close>

subsection \<open>Python values held by constant nodes\<close>

text \<open>
  A float is a finite rational, the negative zero or one of the three special values;
  \<open>Finite 0\<close> is \<^verbatim>\<open>+0.0\<close> and \<open>NegZero\<close> is \<^verbatim>\<open>-0.0\<close>. Only \<^verbatim>\<open>0 - x\<close> is ever computed on a
  float, which is exact.
\<close>

datatype pyfloat = Finite rat | NegZero | PosInf | NegInf | NaN

datatype pyvalue =
    PyNone
  | PyBool bool
  | PyInt int
  | PyFloat pyfloat
  | PyComplex pyfloat pyfloat
  | PyStr string
  | PyBytes "nat list"
  | PyEllipsis

datatype pytype =
  T_NoneType | T_bool | T_int | T_float | T_complex | T_str | T_bytes | T_ellipsis

fun type_of :: "pyvalue \<Rightarrow> pytype" where
  "type_of PyNone = T_NoneType"
| "type_of (PyBool b) = T_bool"
| "type_of (PyInt i) = T_int"
| "type_of (PyFloat f) = T_float"
| "type_of (PyComplex re im) = T_complex"
| "type_of (PyStr s) = T_str"
| "type_of (PyBytes bs) = T_bytes"
| "type_of PyEllipsis = T_ellipsis"

text \<open>\<^verbatim>\<open>bool\<close> is a subclass of \<^verbatim>\<open>int\<close>; no other two of these types are related.\<close>

definition issubclass :: "pytype \<Rightarrow> pytype \<Rightarrow> bool" where
  "issubclass s t = (s = t \<or> (s = T_bool \<and> t = T_int))"

text \<open>\<^verbatim>\<open>isinstance(v, (t1, ..., tn))\<close>.\<close>

definition isinstance :: "pyvalue \<Rightarrow> pytype list \<Rightarrow> bool" where
  "isinstance v ts = list_ex (issubclass (type_of v)) ts"

text \<open>
  \<^verbatim>\<open>0 - x\<close> on a float, the integer 0 being converted to \<^verbatim>\<open>+0.0\<close>: the difference of two
  equal zeros, and of \<^verbatim>\<open>+0.0\<close> and \<^verbatim>\<open>-0.0\<close>, is \<^verbatim>\<open>+0.0\<close>.
\<close>

fun float_rsub0 :: "pyfloat \<Rightarrow> pyfloat" where
  "float_rsub0 (Finite q) = Finite (0 - q)"
| "float_rsub0 NegZero = Finite 0"
| "float_rsub0 PosInf = NegInf"
| "float_rsub0 NegInf = PosInf"
| "float_rsub0 NaN = NaN"

subsection \<open>Nodes\<close>

text \<open>
  A token of the external tokenizer: \<^verbatim>\<open>start\<close> and \<^verbatim>\<open>end\<close> are (line, column) pairs,
  \<^verbatim>\<open>startpos\<close> and \<^verbatim>\<open>endpos\<close> are offsets into the source text.
\<close>

record token =
  tok_start :: "int \<times> int"
  tok_end :: "int \<times> int"
  startpos :: int
  endpos :: int

text \<open>
  An attribute that the code reads without asking whether the object has it: reading it
  raises \<^verbatim>\<open>AttributeError\<close> when it is \<open>Absent\<close>.
\<close>

datatype 'a attribute = Absent | Present 'a

text \<open>
  The attributes the passes read or write on a node object. \<^verbatim>\<open>col_offset\<close> is read by the
  fold, so the record tells a column that is not set from one that is set, to an integer
  or to Python's \<^verbatim>\<open>None\<close> (which the span pass stores when there is no token). For the other
  attributes \<open>None\<close> stands for an attribute that is not set and, for the three other
  position attributes, which are written and never read, also for Python's \<^verbatim>\<open>None\<close>.
\<close>

record attrs =
  source_code :: "string option"
  node_id :: "nat option"
  ast_type :: "string option"
  class_type :: "string option"
  lineno :: "int option"
  col_offset :: "int option attribute"
  end_lineno :: "int option"
  end_col_offset :: "int option"
  src :: "string option"
  first_token :: "token option"
  last_token :: "token option"

text \<open>The operator classes of the grammar's \<^verbatim>\<open>unaryop\<close>; they have no fields.\<close>

datatype unaryop = Invert | NotOp | UAdd | USub

fun unaryop_name :: "unaryop \<Rightarrow> string" where
  "unaryop_name Invert = ''Invert''"
| "unaryop_name NotOp = ''Not''"
| "unaryop_name UAdd = ''UAdd''"
| "unaryop_name USub = ''USub''"

text \<open>
  The node classes the passes tell apart, and one constructor for all the others.
  \<^item> \<open>Constant a v\<close>: fields \<^verbatim>\<open>value\<close> (and \<^verbatim>\<open>kind\<close>, never read).
  \<^item> \<open>UnaryOp a oc oa x\<close>: fields \<^verbatim>\<open>op\<close>, a node of class \<open>oc\<close> with attributes \<open>oa\<close>,
    and \<^verbatim>\<open>operand\<close>, in this order.
  \<^item> \<open>ClassDef a name kids\<close> and \<open>Other cls a kids\<close>: \<open>kids\<close> are the child nodes in the
    order \<^verbatim>\<open>iter_fields\<close> yields them, the items of list-valued fields in place.
\<close>

datatype node =
    Constant attrs pyvalue
  | UnaryOp attrs unaryop attrs node
  | ClassDef attrs string "node list"
  | Other string attrs "node list"

datatype exn =
    SyntaxException string node
  | AttributeError string
  | TypeError string

text \<open>The attributes of all nodes of a tree, in pre-order, children in field order.\<close>

fun attrs_preorder :: "node \<Rightarrow> attrs list"
  and attrs_preorder_list :: "node list \<Rightarrow> attrs list" where
  "attrs_preorder (Constant a v) = [a]"
| "attrs_preorder (UnaryOp a oc oa x) = a # oa # attrs_preorder x"
| "attrs_preorder (ClassDef a name kids) = a # attrs_preorder_list kids"
| "attrs_preorder (Other cls a kids) = a # attrs_preorder_list kids"
| "attrs_preorder_list [] = []"
| "attrs_preorder_list (k # ks) = attrs_preorder k @ attrs_preorder_list ks"

definition node_ids :: "node \<Rightarrow> nat option list" where
  "node_ids t = map node_id (attrs_preorder t)"

definition node_count :: "node \<Rightarrow> nat" where
  "node_count t = length (attrs_preorder t)"

subsection \<open>Pass 1: \<^verbatim>\<open>AnnotatingVisitor\<close>\<close>

record AnnotatingVisitor =
  v_source_code :: string
  counter :: nat
  v_class_types :: "string \<Rightarrow> string option"

text \<open>\<^verbatim>\<open>__init__\<close>: the counter starts at 0; a missing table is the empty one.\<close>

definition AnnotatingVisitor_init ::
  "string \<Rightarrow> (string \<Rightarrow> string option) option \<Rightarrow> AnnotatingVisitor" where
  "AnnotatingVisitor_init source class_types =
     \<lparr> v_source_code = source, counter = 0,
       v_class_types = (case class_types of Some ct \<Rightarrow> ct | None \<Rightarrow> Map.empty) \<rparr>"

text \<open>
  The four assignments that open \<^verbatim>\<open>generic_visit\<close>, on a node of class \<open>cls\<close>: the
  decorated attributes and the visitor with its counter advanced.
\<close>

definition AnnotatingVisitor_decorate ::
  "AnnotatingVisitor \<Rightarrow> string \<Rightarrow> attrs \<Rightarrow> attrs \<times> AnnotatingVisitor" where
  "AnnotatingVisitor_decorate self cls a =
     (a\<lparr> source_code := Some (v_source_code self),
         node_id := Some (counter self),
         ast_type := Some cls \<rparr>,
      self\<lparr> counter := counter self + 1 \<rparr>)"

text \<open>
  \<^verbatim>\<open>visit_Constant\<close>: \<^verbatim>\<open>generic_visit\<close> (a constant has no child nodes), then the
  \<^verbatim>\<open>if\<close>/\<^verbatim>\<open>elif\<close> chain on the value, in the source's order.
\<close>

definition AnnotatingVisitor_visit_Constant ::
  "AnnotatingVisitor \<Rightarrow> attrs \<Rightarrow> pyvalue \<Rightarrow> exn + (node \<times> AnnotatingVisitor)" where
  "AnnotatingVisitor_visit_Constant self a v =
     (case AnnotatingVisitor_decorate self ''Constant'' a of (a1, self1) \<Rightarrow>
        if v = PyNone \<or> isinstance v [T_bool] then
          Inr (Constant (a1\<lparr>ast_type := Some ''NameConstant''\<rparr>) v, self1)
        else if isinstance v [T_int, T_float] then
          Inr (Constant (a1\<lparr>ast_type := Some ''Num''\<rparr>) v, self1)
        else if isinstance v [T_str] then
          Inr (Constant (a1\<lparr>ast_type := Some ''Str''\<rparr>) v, self1)
        else if isinstance v [T_bytes] then
          Inr (Constant (a1\<lparr>ast_type := Some ''Bytes''\<rparr>) v, self1)
        else
          Inl (SyntaxException ''Invalid syntax (unsupported Python Constant AST node).''
                 (Constant a1 v)))"

text \<open>
  \<^verbatim>\<open>visit\<close>: dispatch on the node's class. \<^verbatim>\<open>visit_ClassDef\<close> sets \<^verbatim>\<open>class_type\<close> after
  \<^verbatim>\<open>generic_visit\<close>; every other class goes to \<^verbatim>\<open>generic_visit\<close>, which decorates the
  node and then visits its children in field order. An exception in a child ends the
  traversal.
\<close>

fun AnnotatingVisitor_visit ::
    "AnnotatingVisitor \<Rightarrow> node \<Rightarrow> exn + (node \<times> AnnotatingVisitor)"
  and AnnotatingVisitor_visit_list ::
    "AnnotatingVisitor \<Rightarrow> node list \<Rightarrow> exn + (node list \<times> AnnotatingVisitor)" where
  "AnnotatingVisitor_visit self (Constant a v) = AnnotatingVisitor_visit_Constant self a v"
| "AnnotatingVisitor_visit self (UnaryOp a oc oa x) =
     (case AnnotatingVisitor_decorate self ''UnaryOp'' a of (a1, self1) \<Rightarrow>
       (case AnnotatingVisitor_decorate self1 (unaryop_name oc) oa of (oa1, self2) \<Rightarrow>
         (case AnnotatingVisitor_visit self2 x of
            Inl e \<Rightarrow> Inl e
          | Inr (x1, self3) \<Rightarrow> Inr (UnaryOp a1 oc oa1 x1, self3))))"
| "AnnotatingVisitor_visit self (ClassDef a name kids) =
     (case AnnotatingVisitor_decorate self ''ClassDef'' a of (a1, self1) \<Rightarrow>
       (case AnnotatingVisitor_visit_list self1 kids of
          Inl e \<Rightarrow> Inl e
        | Inr (kids1, self2) \<Rightarrow>
            Inr (ClassDef (a1\<lparr>class_type := v_class_types self2 name\<rparr>) name kids1, self2)))"
| "AnnotatingVisitor_visit self (Other cls a kids) =
     (case AnnotatingVisitor_decorate self cls a of (a1, self1) \<Rightarrow>
       (case AnnotatingVisitor_visit_list self1 kids of
          Inl e \<Rightarrow> Inl e
        | Inr (kids1, self2) \<Rightarrow> Inr (Other cls a1 kids1, self2)))"
| "AnnotatingVisitor_visit_list self [] = Inr ([], self)"
| "AnnotatingVisitor_visit_list self (k # ks) =
     (case AnnotatingVisitor_visit self k of
        Inl e \<Rightarrow> Inl e
      | Inr (k1, self1) \<Rightarrow>
          (case AnnotatingVisitor_visit_list self1 ks of
             Inl e \<Rightarrow> Inl e
           | Inr (ks1, self2) \<Rightarrow> Inr (k1 # ks1, self2)))"

subsection \<open>Pass 2: \<^verbatim>\<open>RewriteUnarySubVisitor\<close>\<close>

text \<open>
  \<^verbatim>\<open>isinstance(node, ast.Num)\<close>, as the host library's instance check of the deprecated
  class decides it: a constant whose value is an \<^verbatim>\<open>int\<close>, \<^verbatim>\<open>float\<close> or \<^verbatim>\<open>complex\<close> and not
  a \<^verbatim>\<open>bool\<close>.
\<close>

fun isinstance_Num :: "node \<Rightarrow> bool" where
  "isinstance_Num (Constant a v) =
     (isinstance v [T_int, T_float, T_complex] \<and> \<not> isinstance v [T_bool])"
| "isinstance_Num (UnaryOp a oc oa x) = False"
| "isinstance_Num (ClassDef a name kids) = False"
| "isinstance_Num (Other cls a kids) = False"

text \<open>\<^verbatim>\<open>0 - v\<close>: defined on numbers (a \<^verbatim>\<open>bool\<close> counts as 0 or 1), a \<^verbatim>\<open>TypeError\<close> elsewhere.\<close>

fun py_rsub0 :: "pyvalue \<Rightarrow> exn + pyvalue" where
  "py_rsub0 (PyBool b) = Inr (PyInt (0 - (if b then 1 else 0)))"
| "py_rsub0 (PyInt i) = Inr (PyInt (0 - i))"
| "py_rsub0 (PyFloat f) = Inr (PyFloat (float_rsub0 f))"
| "py_rsub0 (PyComplex re im) = Inr (PyComplex (float_rsub0 re) (float_rsub0 im))"
| "py_rsub0 PyNone = Inl (TypeError ''unsupported operand type(s) for -'')"
| "py_rsub0 (PyStr s) = Inl (TypeError ''unsupported operand type(s) for -'')"
| "py_rsub0 (PyBytes bs) = Inl (TypeError ''unsupported operand type(s) for -'')"
| "py_rsub0 PyEllipsis = Inl (TypeError ''unsupported operand type(s) for -'')"

text \<open>
  The two assignments of \<^verbatim>\<open>visit_UnaryOp\<close> on the operand object (\<^verbatim>\<open>n\<close> is the alias of
  \<^verbatim>\<open>value\<close> on a constant, and no other class has it); \<open>a\<close> holds the attributes of the
  unary node. The second assignment reads the column of the unary node, and raises when
  the node has none.
\<close>

fun RewriteUnarySubVisitor_negate_operand :: "attrs \<Rightarrow> node \<Rightarrow> exn + node" where
  "RewriteUnarySubVisitor_negate_operand a (Constant ca v) =
     (case py_rsub0 v of
        Inl e \<Rightarrow> Inl e
      | Inr v1 \<Rightarrow>
          (case col_offset a of
             Absent \<Rightarrow> Inl (AttributeError ''col_offset'')
           | Present c \<Rightarrow> Inr (Constant (ca\<lparr>col_offset := Present c\<rparr>) v1)))"
| "RewriteUnarySubVisitor_negate_operand a (UnaryOp ua oc oa x) = Inl (AttributeError ''n'')"
| "RewriteUnarySubVisitor_negate_operand a (ClassDef ca name kids) = Inl (AttributeError ''n'')"
| "RewriteUnarySubVisitor_negate_operand a (Other cls ca kids) = Inl (AttributeError ''n'')"

text \<open>
  \<^verbatim>\<open>visit\<close>: the node that the visit returns, which the parent's \<^verbatim>\<open>generic_visit\<close>
  stores in place of the visited child. \<^verbatim>\<open>visit_UnaryOp\<close> visits the children first
  (the operator node has no fields, so it stays as it is) and then tests the operand it
  now holds.
\<close>

fun RewriteUnarySubVisitor_visit :: "node \<Rightarrow> exn + node"
  and RewriteUnarySubVisitor_visit_list :: "node list \<Rightarrow> exn + node list" where
  "RewriteUnarySubVisitor_visit (Constant a v) = Inr (Constant a v)"
| "RewriteUnarySubVisitor_visit (UnaryOp a oc oa x) =
     (case RewriteUnarySubVisitor_visit x of
        Inl e \<Rightarrow> Inl e
      | Inr x1 \<Rightarrow>
          if oc = USub \<and> isinstance_Num x1
          then RewriteUnarySubVisitor_negate_operand a x1
          else Inr (UnaryOp a oc oa x1))"
| "RewriteUnarySubVisitor_visit (ClassDef a name kids) =
     (case RewriteUnarySubVisitor_visit_list kids of
        Inl e \<Rightarrow> Inl e
      | Inr kids1 \<Rightarrow> Inr (ClassDef a name kids1))"
| "RewriteUnarySubVisitor_visit (Other cls a kids) =
     (case RewriteUnarySubVisitor_visit_list kids of
        Inl e \<Rightarrow> Inl e
      | Inr kids1 \<Rightarrow> Inr (Other cls a kids1))"
| "RewriteUnarySubVisitor_visit_list [] = Inr []"
| "RewriteUnarySubVisitor_visit_list (k # ks) =
     (case RewriteUnarySubVisitor_visit k of
        Inl e \<Rightarrow> Inl e
      | Inr k1 \<Rightarrow>
          (case RewriteUnarySubVisitor_visit_list ks of
             Inl e \<Rightarrow> Inl e
           | Inr ks1 \<Rightarrow> Inr (k1 # ks1)))"

text \<open>
  What the visited object itself has become. It differs from the returned node only
  when the visited node is a unary negation that folds: the object keeps its class and
  holds the negated operand, and the visit returns that operand. The entry point drops
  the return value of \<^verbatim>\<open>visit\<close>, so this is the tree it goes on with.
\<close>

fun RewriteUnarySubVisitor_in_place :: "node \<Rightarrow> exn + node" where
  "RewriteUnarySubVisitor_in_place (UnaryOp a oc oa x) =
     (case RewriteUnarySubVisitor_visit x of
        Inl e \<Rightarrow> Inl e
      | Inr x1 \<Rightarrow>
          if oc = USub \<and> isinstance_Num x1
          then (case RewriteUnarySubVisitor_negate_operand a x1 of
                  Inl e \<Rightarrow> Inl e
                | Inr x2 \<Rightarrow> Inr (UnaryOp a oc oa x2))
          else Inr (UnaryOp a oc oa x1))"
| "RewriteUnarySubVisitor_in_place (Constant a v) =
     RewriteUnarySubVisitor_visit (Constant a v)"
| "RewriteUnarySubVisitor_in_place (ClassDef a name kids) =
     RewriteUnarySubVisitor_visit (ClassDef a name kids)"
| "RewriteUnarySubVisitor_in_place (Other cls a kids) =
     RewriteUnarySubVisitor_visit (Other cls a kids)"

subsection \<open>Pass 3: \<^verbatim>\<open>AddSourceOffsetVisitor\<close>\<close>

text \<open>Python's decimal rendering of an integer, as an f-string field produces it.\<close>

fun str_nat :: "nat \<Rightarrow> string" where
  "str_nat n =
     (if n < 10 then [''0123456789'' ! n]
      else str_nat (n div 10) @ [''0123456789'' ! (n mod 10)])"

declare str_nat.simps [simp del]

definition str_int :: "int \<Rightarrow> string" where
  "str_int i = (if i < 0 then CHR ''-'' # str_nat (nat (- i)) else str_nat (nat i))"

text \<open>
  The assignments of \<^verbatim>\<open>generic_visit\<close> on one node. Reading \<^verbatim>\<open>first_token\<close> of a node
  that has none raises.
\<close>

definition AddSourceOffsetVisitor_offsets :: "int \<Rightarrow> attrs \<Rightarrow> exn + attrs" where
  "AddSourceOffsetVisitor_offsets source_id a =
     (let start = (case first_token a of
                     Some ft \<Rightarrow> (Some (fst (tok_start ft)), Some (snd (tok_start ft)))
                   | None \<Rightarrow> (None, None));
          end = (case last_token a of
                   Some lt \<Rightarrow> (Some (fst (tok_end lt)), Some (snd (tok_end lt)))
                 | None \<Rightarrow> (None, None));
          a1 = a\<lparr> lineno := fst start, col_offset := Present (snd start),
                  end_lineno := fst end, end_col_offset := snd end \<rparr>
      in case last_token a of
           None \<Rightarrow> Inr a1
         | Some lt \<Rightarrow>
             (case first_token a of
                None \<Rightarrow> Inl (AttributeError ''first_token'')
              | Some ft \<Rightarrow>
                  Inr (a1\<lparr> src := Some (str_int (startpos ft) @ '':'' @
                                         str_int (endpos lt - startpos ft) @ '':'' @
                                         str_int source_id) \<rparr>)))"

text \<open>No class has a visit method of its own: every node goes through \<^verbatim>\<open>generic_visit\<close>.\<close>

fun AddSourceOffsetVisitor_visit :: "int \<Rightarrow> node \<Rightarrow> exn + node"
  and AddSourceOffsetVisitor_visit_list :: "int \<Rightarrow> node list \<Rightarrow> exn + node list" where
  "AddSourceOffsetVisitor_visit sid (Constant a v) =
     (case AddSourceOffsetVisitor_offsets sid a of
        Inl e \<Rightarrow> Inl e
      | Inr a1 \<Rightarrow> Inr (Constant a1 v))"
| "AddSourceOffsetVisitor_visit sid (UnaryOp a oc oa x) =
     (case AddSourceOffsetVisitor_offsets sid a of
        Inl e \<Rightarrow> Inl e
      | Inr a1 \<Rightarrow>
          (case AddSourceOffsetVisitor_offsets sid oa of
             Inl e \<Rightarrow> Inl e
           | Inr oa1 \<Rightarrow>
               (case AddSourceOffsetVisitor_visit sid x of
                  Inl e \<Rightarrow> Inl e
                | Inr x1 \<Rightarrow> Inr (UnaryOp a1 oc oa1 x1))))"
| "AddSourceOffsetVisitor_visit sid (ClassDef a name kids) =
     (case AddSourceOffsetVisitor_offsets sid a of
        Inl e \<Rightarrow> Inl e
      | Inr a1 \<Rightarrow>
          (case AddSourceOffsetVisitor_visit_list sid kids of
             Inl e \<Rightarrow> Inl e
           | Inr kids1 \<Rightarrow> Inr (ClassDef a1 name kids1)))"
| "AddSourceOffsetVisitor_visit sid (Other cls a kids) =
     (case AddSourceOffsetVisitor_offsets sid a of
        Inl e \<Rightarrow> Inl e
      | Inr a1 \<Rightarrow>
          (case AddSourceOffsetVisitor_visit_list sid kids of
             Inl e \<Rightarrow> Inl e
           | Inr kids1 \<Rightarrow> Inr (Other cls a1 kids1)))"
| "AddSourceOffsetVisitor_visit_list sid [] = Inr []"
| "AddSourceOffsetVisitor_visit_list sid (k # ks) =
     (case AddSourceOffsetVisitor_visit sid k of
        Inl e \<Rightarrow> Inl e
      | Inr k1 \<Rightarrow>
          (case AddSourceOffsetVisitor_visit_list sid ks of
             Inl e \<Rightarrow> Inl e
           | Inr ks1 \<Rightarrow> Inr (k1 # ks1)))"

subsection \<open>The token association and the entry point\<close>

text \<open>
  Modelled from the spec: the token-association service is the external tokenizer
  package, not part of this module. Given the source text and the tree it yields, for
  each node, an optional pair of the first and the last covering token; a node is named
  by its path from the root (child positions, the operator of a unary node at 0 and its
  operand at 1). Marking stores the pair in \<^verbatim>\<open>first_token\<close> and \<^verbatim>\<open>last_token\<close>, both
  together, and touches nothing else.
\<close>

definition set_tokens :: "(token \<times> token) option \<Rightarrow> attrs \<Rightarrow> attrs" where
  "set_tokens r a =
     (case r of
        None \<Rightarrow> a
      | Some (ft, lt) \<Rightarrow> a\<lparr> first_token := Some ft, last_token := Some lt \<rparr>)"

fun mark_tokens :: "(nat list \<Rightarrow> (token \<times> token) option) \<Rightarrow> nat list \<Rightarrow> node \<Rightarrow> node"
  and mark_tokens_list ::
    "(nat list \<Rightarrow> (token \<times> token) option) \<Rightarrow> nat list \<Rightarrow> nat \<Rightarrow> node list \<Rightarrow> node list" where
  "mark_tokens f p (Constant a v) = Constant (set_tokens (f p) a) v"
| "mark_tokens f p (UnaryOp a oc oa x) =
     UnaryOp (set_tokens (f p) a) oc (set_tokens (f (p @ [0])) oa) (mark_tokens f (p @ [1]) x)"
| "mark_tokens f p (ClassDef a name kids) =
     ClassDef (set_tokens (f p) a) name (mark_tokens_list f p 0 kids)"
| "mark_tokens f p (Other cls a kids) =
     Other cls (set_tokens (f p) a) (mark_tokens_list f p 0 kids)"
| "mark_tokens_list f p i [] = []"
| "mark_tokens_list f p i (k # ks) =
     mark_tokens f (p @ [i]) k # mark_tokens_list f p (i + 1) ks"

text \<open>
  \<^verbatim>\<open>annotate_python_ast\<close>: a fresh \<^verbatim>\<open>AnnotatingVisitor\<close>, the fold, the token marking over
  the folded tree, the span pass. The function returns nothing; the result here is the
  tree that \<^verbatim>\<open>parsed_ast\<close> names when it returns, or the exception that left it.
\<close>

definition annotate_python_ast ::
  "(string \<Rightarrow> node \<Rightarrow> nat list \<Rightarrow> (token \<times> token) option) \<Rightarrow>
   node \<Rightarrow> string \<Rightarrow> (string \<Rightarrow> string option) option \<Rightarrow> int \<Rightarrow> exn + node" where
  "annotate_python_ast asttokens parsed_ast source class_types source_id =
     (case AnnotatingVisitor_visit (AnnotatingVisitor_init source class_types) parsed_ast of
        Inl e \<Rightarrow> Inl e
      | Inr (t1, visitor) \<Rightarrow>
          (case RewriteUnarySubVisitor_in_place t1 of
             Inl e \<Rightarrow> Inl e
           | Inr t2 \<Rightarrow>
               AddSourceOffsetVisitor_visit source_id
                 (mark_tokens (asttokens source t2) [] t2)))"

subsection \<open>Notions the properties are stated with\<close>

text \<open>Every node of a tree in pre-order, with the value it holds when it is a constant.\<close>

fun nodes_preorder :: "node \<Rightarrow> (attrs \<times> pyvalue option) list"
  and nodes_preorder_list :: "node list \<Rightarrow> (attrs \<times> pyvalue option) list" where
  "nodes_preorder (Constant a v) = [(a, Some v)]"
| "nodes_preorder (UnaryOp a oc oa x) = (a, None) # (oa, None) # nodes_preorder x"
| "nodes_preorder (ClassDef a name kids) = (a, None) # nodes_preorder_list kids"
| "nodes_preorder (Other cls a kids) = (a, None) # nodes_preorder_list kids"
| "nodes_preorder_list [] = []"
| "nodes_preorder_list (k # ks) = nodes_preorder k @ nodes_preorder_list ks"

fun root_attrs :: "node \<Rightarrow> attrs" where
  "root_attrs (Constant a v) = a"
| "root_attrs (UnaryOp a oc oa x) = a"
| "root_attrs (ClassDef a name kids) = a"
| "root_attrs (Other cls a kids) = a"

text \<open>
  The classification as the specification words it: four tests tried in this order, the
  first that matches decides. A boolean is a number of the host data model, so the
  second test matches it too.
\<close>

definition spec_literal_tests :: "((pyvalue \<Rightarrow> bool) \<times> string) list" where
  "spec_literal_tests =
     [(\<lambda>v. case v of PyNone \<Rightarrow> True | PyBool b \<Rightarrow> True | _ \<Rightarrow> False, ''NameConstant''),
      (\<lambda>v. isinstance v [T_int] \<or> isinstance v [T_float], ''Num''),
      (\<lambda>v. case v of PyStr s \<Rightarrow> True | _ \<Rightarrow> False, ''Str''),
      (\<lambda>v. case v of PyBytes bs \<Rightarrow> True | _ \<Rightarrow> False, ''Bytes'')]"

definition spec_const_subkind :: "pyvalue \<Rightarrow> string option" where
  "spec_const_subkind v = map_option snd (find (\<lambda>(test, kind). test v) spec_literal_tests)"

text \<open>
  A value that passes none of the four tests of the code, and the first constant of a
  pre-order listing that holds such a value: its position, attributes and value.
\<close>

definition unsupported_value :: "pyvalue \<Rightarrow> bool" where
  "unsupported_value v =
     (\<not> (v = PyNone \<or> isinstance v [T_bool]) \<and> \<not> isinstance v [T_int, T_float]
      \<and> \<not> isinstance v [T_str] \<and> \<not> isinstance v [T_bytes])"

definition later :: "(nat \<times> attrs \<times> pyvalue) option \<Rightarrow> (nat \<times> attrs \<times> pyvalue) option" where
  "later r = map_option (\<lambda>(i, a, v). (Suc i, a, v)) r"

fun first_unsupported_in ::
  "(attrs \<times> pyvalue option) list \<Rightarrow> (nat \<times> attrs \<times> pyvalue) option" where
  "first_unsupported_in [] = None"
| "first_unsupported_in ((a, None) # ns) = later (first_unsupported_in ns)"
| "first_unsupported_in ((a, Some v) # ns) =
     (if unsupported_value v then Some (0, a, v) else later (first_unsupported_in ns))"

definition first_unsupported :: "node \<Rightarrow> (nat \<times> attrs \<times> pyvalue) option" where
  "first_unsupported t = first_unsupported_in (nodes_preorder t)"

text \<open>
  The exception pass 1 raises at a constant with attributes \<open>a\<close> and value \<open>v\<close> that is
  the node number \<open>i\<close> of a visit started by \<open>self\<close>: it carries the constant as
  \<^verbatim>\<open>generic_visit\<close> has just decorated it.
\<close>

definition unsupported_error :: "AnnotatingVisitor \<Rightarrow> nat \<Rightarrow> attrs \<Rightarrow> pyvalue \<Rightarrow> exn" where
  "unsupported_error self i a v =
     SyntaxException ''Invalid syntax (unsupported Python Constant AST node).''
       (Constant (a\<lparr> source_code := Some (v_source_code self),
                      node_id := Some (counter self + i),
                      ast_type := Some ''Constant'' \<rparr>) v)"



text \<open>The constants that hold a boolean or the null value, in pre-order.\<close>

definition is_name_constant :: "attrs \<times> pyvalue option \<Rightarrow> bool" where
  "is_name_constant n =
     (case snd n of Some PyNone \<Rightarrow> True | Some (PyBool b) \<Rightarrow> True | _ \<Rightarrow> False)"

definition name_constants :: "node \<Rightarrow> (attrs \<times> pyvalue option) list" where
  "name_constants t = filter is_name_constant (nodes_preorder t)"

text \<open>A node that has a first token whenever it has a last one.\<close>

definition tokens_paired :: "attrs \<Rightarrow> bool" where
  "tokens_paired a = (last_token a = None \<or> first_token a \<noteq> None)"




subsection \<open>Example inputs\<close>

definition attrs0 :: attrs where
  "attrs0 = \<lparr> source_code = None, node_id = None, ast_type = None, class_type = None,
              lineno = None, col_offset = Absent, end_lineno = None, end_col_offset = None,
              src = None, first_token = None, last_token = None \<rparr>"

text \<open>The attributes of an expression or statement parsed at line 1, column \<open>c\<close>.\<close>

definition at_col :: "int \<Rightarrow> attrs" where
  "at_col c = attrs0\<lparr> lineno := Some 1, col_offset := Present (Some c) \<rparr>"

text \<open>\<^verbatim>\<open>-3\<close>, as it stands in \<^verbatim>\<open>x = -3\<close>, and the module of that source.\<close>

definition ex_neg3 :: node where
  "ex_neg3 = UnaryOp (at_col 4) USub attrs0 (Constant (at_col 5) (PyInt 3))"

definition ex_module :: node where
  "ex_module =
     Other ''Module'' attrs0
       [Other ''Assign'' (at_col 0)
          [Other ''Name'' (at_col 0) [Other ''Store'' attrs0 []], ex_neg3]]"


text \<open>\<^verbatim>\<open>- -5\<close>: a negation whose operand is a negation.\<close>

definition ex_double_neg :: node where
  "ex_double_neg =
     UnaryOp (at_col 0) USub attrs0
       (UnaryOp (at_col 2) USub attrs0 (Constant (at_col 3) (PyInt 5)))"

text \<open>The module of \<^verbatim>\<open>y = ...\<close>, and \<^verbatim>\<open>-True\<close>.\<close>

definition ex_ellipsis_module :: node where
  "ex_ellipsis_module =
     Other ''Module'' attrs0
       [Other ''Assign'' (at_col 0)
          [Other ''Name'' (at_col 0) [Other ''Store'' attrs0 []],
           Constant (at_col 4) PyEllipsis]]"

definition ex_neg_true :: node where
  "ex_neg_true = UnaryOp (at_col 0) USub attrs0 (Constant (at_col 1) (PyBool True))"

text \<open>A token over the source bytes 10 to 15 of line 2, and a service that finds no token.\<close>

definition ex_token :: token where
  "ex_token = \<lparr> tok_start = (2, 4), tok_end = (2, 9), startpos = 10, endpos = 15 \<rparr>"

definition no_tokens :: "string \<Rightarrow> node \<Rightarrow> nat list \<Rightarrow> (token \<times> token) option" where
  "no_tokens source t p = None"

text \<open>The module of \<^verbatim>\<open>x = -3\<close> as pass 1 leaves it, and as the entry point leaves it.\<close>

definition numbered :: "string \<Rightarrow> nat \<Rightarrow> string \<Rightarrow> attrs \<Rightarrow> attrs" where
  "numbered source i cls a =
     a\<lparr> source_code := Some source, node_id := Some i, ast_type := Some cls \<rparr>"

definition ex_module_numbered :: node where
  "ex_module_numbered =
     Other ''Module'' (numbered ''x = -3'' 0 ''Module'' attrs0)
       [Other ''Assign'' (numbered ''x = -3'' 1 ''Assign'' (at_col 0))
          [Other ''Name'' (numbered ''x = -3'' 2 ''Name'' (at_col 0))
             [Other ''Store'' (numbered ''x = -3'' 3 ''Store'' attrs0) []],
           UnaryOp (numbered ''x = -3'' 4 ''UnaryOp'' (at_col 4)) USub
             (numbered ''x = -3'' 5 ''USub'' attrs0)
             (Constant (numbered ''x = -3'' 6 ''Num'' (at_col 5)) (PyInt 3))]]"

definition no_span :: attrs where
  "no_span = attrs0\<lparr> col_offset := Present None \<rparr>"

definition ex_module_annotated :: node where
  "ex_module_annotated =
     Other ''Module'' (numbered ''x = -3'' 0 ''Module'' no_span)
       [Other ''Assign'' (numbered ''x = -3'' 1 ''Assign'' no_span)
          [Other ''Name'' (numbered ''x = -3'' 2 ''Name'' no_span)
             [Other ''Store'' (numbered ''x = -3'' 3 ''Store'' no_span) []],
           Constant (numbered ''x = -3'' 6 ''Num'' no_span) (PyInt (- 3))]]"



definition ex_last_token_only :: node where
  "ex_last_token_only = Other ''Name'' (attrs0\<lparr> last_token := Some ex_token \<rparr>) []"

section \<open>Properties\<close>

subsection \<open>Pass 1: classification of constants\<close>

lemma spec_const_subkind_simps:
  "spec_const_subkind PyNone = Some ''NameConstant''"
  "spec_const_subkind (PyBool b) = Some ''NameConstant''"
  "spec_const_subkind (PyInt i) = Some ''Num''"
  "spec_const_subkind (PyFloat f) = Some ''Num''"
  "spec_const_subkind (PyStr s) = Some ''Str''"
  "spec_const_subkind (PyBytes bs) = Some ''Bytes''"
  "spec_const_subkind (PyComplex re im) = None"
  "spec_const_subkind PyEllipsis = None"
  by (simp_all add: spec_const_subkind_def spec_literal_tests_def isinstance_def issubclass_def)

text \<open>
  C1. Visiting a constant tags it with the kind of the first of the four ordered tests
  (boolean or null, number, string, bytes) that its value passes, and raises when it
  passes none. \<^verbatim>\<open>None\<close>, \<^verbatim>\<open>True\<close> and \<^verbatim>\<open>False\<close> are tagged \<^verbatim>\<open>NameConstant\<close>, although the
  booleans pass the number test as well: the boolean test comes first.
\<close>

theorem visit_Constant_first_match:
  "AnnotatingVisitor_visit self (Constant a v) =
     (case AnnotatingVisitor_decorate self ''Constant'' a of (a1, self1) \<Rightarrow>
        (case spec_const_subkind v of
           Some kind \<Rightarrow> Inr (Constant (a1\<lparr>ast_type := Some kind\<rparr>) v, self1)
         | None \<Rightarrow>
             Inl (SyntaxException ''Invalid syntax (unsupported Python Constant AST node).''
                    (Constant a1 v))))
   \<and> spec_const_subkind PyNone = Some ''NameConstant''
   \<and> spec_const_subkind (PyBool True) = Some ''NameConstant''
   \<and> spec_const_subkind (PyBool False) = Some ''NameConstant''
   \<and> isinstance (PyBool True) [T_int, T_float] \<and> isinstance (PyBool False) [T_int, T_float]"
  by (cases v)
     (simp_all add: spec_const_subkind_simps AnnotatingVisitor_visit_Constant_def
        isinstance_def issubclass_def split: prod.splits)

theorem visit_Constant_first_match_witness:
  "AnnotatingVisitor_visit (AnnotatingVisitor_init ''y = True'' None)
       (Constant (at_col 4) (PyBool True))
     = Inr (Constant ((at_col 4)\<lparr> source_code := Some ''y = True'', node_id := Some 0,
                                 ast_type := Some ''NameConstant'' \<rparr>) (PyBool True),
            (AnnotatingVisitor_init ''y = True'' None)\<lparr> counter := 1 \<rparr>)"
  using visit_Constant_first_match
          [of "AnnotatingVisitor_init ''y = True'' None" "at_col 4" "PyBool True"]
  by (simp add: AnnotatingVisitor_decorate_def AnnotatingVisitor_init_def)

subsection \<open>Pass 1: numbering\<close>

lemma later_simps [simp]:
  "later None = None" "later (Some (i, a, v)) = Some (Suc i, a, v)"
  by (simp_all add: later_def)

lemma first_unsupported_in_append:
  "first_unsupported_in (xs @ ys) =
     (case first_unsupported_in xs of
        Some r \<Rightarrow> Some r
      | None \<Rightarrow> map_option (\<lambda>(i, a, v). (length xs + i, a, v)) (first_unsupported_in ys))"
proof (induction xs rule: first_unsupported_in.induct)
  case 1
  show ?case by (cases "first_unsupported_in ys") auto
next
  case (2 a ns)
  then show ?case
    by (cases "first_unsupported_in ns"; cases "first_unsupported_in ys") auto
next
  case (3 a v ns)
  then show ?case
    by (cases "first_unsupported_in ns"; cases "first_unsupported_in ys") auto
qed

lemma length_nodes_preorder:
  "length (nodes_preorder t) = length (attrs_preorder t)"
  "length (nodes_preorder_list ts) = length (attrs_preorder_list ts)"
  by (induction t and ts rule: nodes_preorder_nodes_preorder_list.induct) simp_all

lemma visit_Constant_cases:
  "AnnotatingVisitor_visit_Constant self a v =
     (if unsupported_value v then Inl (unsupported_error self 0 a v)
      else Inr (Constant (a\<lparr> source_code := Some (v_source_code self),
                            node_id := Some (counter self),
                            ast_type := spec_const_subkind v \<rparr>) v,
                self\<lparr> counter := counter self + 1 \<rparr>))"
  by (cases v)
     (simp_all add: AnnotatingVisitor_visit_Constant_def AnnotatingVisitor_decorate_def
        unsupported_value_def unsupported_error_def spec_const_subkind_simps
        isinstance_def issubclass_def)

lemma decorate_eq:
  "AnnotatingVisitor_decorate self cls a =
     (a\<lparr> source_code := Some (v_source_code self), node_id := Some (counter self),
         ast_type := Some cls \<rparr>,
      self\<lparr> counter := Suc (counter self) \<rparr>)"
  by (simp add: AnnotatingVisitor_decorate_def)

lemma unsupported_error_shift [simp]:
  "unsupported_error (self\<lparr>counter := counter self + k\<rparr>) i a v = unsupported_error self (k + i) a v"
  "unsupported_error (self\<lparr>counter := Suc (counter self)\<rparr>) i a v = unsupported_error self (Suc i) a v"
  "unsupported_error (self\<lparr>counter := Suc (Suc (counter self))\<rparr>) i a v =
     unsupported_error self (Suc (Suc i)) a v"
  by (simp_all add: unsupported_error_def add.assoc)

text \<open>
  Pass 1 returns exactly on the trees with no unsupported constant, and otherwise raises
  at the first one in pre-order.
\<close>

lemma AnnotatingVisitor_visit_outcome:
  "(case first_unsupported_in (nodes_preorder t) of
      None \<Rightarrow> \<exists>t'. AnnotatingVisitor_visit self t =
                      Inr (t', self\<lparr> counter := counter self + length (nodes_preorder t) \<rparr>)
    | Some (i, a, v) \<Rightarrow> AnnotatingVisitor_visit self t = Inl (unsupported_error self i a v))"
  "(case first_unsupported_in (nodes_preorder_list ts) of
      None \<Rightarrow> \<exists>ts'. AnnotatingVisitor_visit_list self ts =
                      Inr (ts', self\<lparr> counter := counter self + length (nodes_preorder_list ts) \<rparr>)
    | Some (i, a, v) \<Rightarrow> AnnotatingVisitor_visit_list self ts = Inl (unsupported_error self i a v))"
proof (induction self t and self ts
       rule: AnnotatingVisitor_visit_AnnotatingVisitor_visit_list.induct)
  case (1 self a v)
  show ?case by (simp add: visit_Constant_cases)
next
  case (2 self a oc oa x)
  let ?self2 = "self\<lparr>counter := Suc (Suc (counter self))\<rparr>"
  have ih: "(case first_unsupported_in (nodes_preorder x) of
      None \<Rightarrow> \<exists>t'. AnnotatingVisitor_visit ?self2 x =
                      Inr (t', ?self2\<lparr> counter := counter ?self2 + length (nodes_preorder x) \<rparr>)
    | Some (i, a, v) \<Rightarrow> AnnotatingVisitor_visit ?self2 x = Inl (unsupported_error ?self2 i a v))"
    using "2.IH"[of _ "self\<lparr>counter := Suc (counter self)\<rparr>" _ ?self2]
    by (simp add: decorate_eq)
  show ?case
  proof (cases "first_unsupported_in (nodes_preorder x)")
    case None
    with ih show ?thesis by (auto simp: decorate_eq)
  next
    case (Some r)
    obtain i a' v' where r: "r = (i, a', v')" by (cases r)
    with Some ih show ?thesis by (simp add: decorate_eq)
  qed
next
  case (3 self a name kids)
  let ?self1 = "self\<lparr>counter := Suc (counter self)\<rparr>"
  have ih: "(case first_unsupported_in (nodes_preorder_list kids) of
      None \<Rightarrow> \<exists>ts'. AnnotatingVisitor_visit_list ?self1 kids =
                      Inr (ts', ?self1\<lparr> counter := counter ?self1 + length (nodes_preorder_list kids) \<rparr>)
    | Some (i, a, v) \<Rightarrow> AnnotatingVisitor_visit_list ?self1 kids = Inl (unsupported_error ?self1 i a v))"
    using "3.IH"[of _ ?self1] by (simp add: decorate_eq)
  show ?case
  proof (cases "first_unsupported_in (nodes_preorder_list kids)")
    case None
    with ih show ?thesis by (auto simp: decorate_eq)
  next
    case (Some r)
    obtain i a' v' where r: "r = (i, a', v')" by (cases r)
    with Some ih show ?thesis by (simp add: decorate_eq)
  qed
next
  case (4 self cls a kids)
  let ?self1 = "self\<lparr>counter := Suc (counter self)\<rparr>"
  have ih: "(case first_unsupported_in (nodes_preorder_list kids) of
      None \<Rightarrow> \<exists>ts'. AnnotatingVisitor_visit_list ?self1 kids =
                      Inr (ts', ?self1\<lparr> counter := counter ?self1 + length (nodes_preorder_list kids) \<rparr>)
    | Some (i, a, v) \<Rightarrow> AnnotatingVisitor_visit_list ?self1 kids = Inl (unsupported_error ?self1 i a v))"
    using "4.IH"[of _ ?self1] by (simp add: decorate_eq)
  show ?case
  proof (cases "first_unsupported_in (nodes_preorder_list kids)")
    case None
    with ih show ?thesis by (auto simp: decorate_eq)
  next
    case (Some r)
    obtain i a' v' where r: "r = (i, a', v')" by (cases r)
    with Some ih show ?thesis by (simp add: decorate_eq)
  qed
next
  case (5 self)
  show ?case by simp
next
  case (6 self k ks)
  show ?case
  proof (cases "first_unsupported_in (nodes_preorder k)")
    case (Some r)
    obtain i a' v' where r: "r = (i, a', v')" by (cases r)
    with Some "6.IH"(1) show ?thesis by (simp add: first_unsupported_in_append)
  next
    case None
    let ?self1 = "self\<lparr> counter := counter self + length (nodes_preorder k) \<rparr>"
    from None "6.IH"(1) obtain k1 where k1: "AnnotatingVisitor_visit self k = Inr (k1, ?self1)"
      by auto
    have ih: "(case first_unsupported_in (nodes_preorder_list ks) of
      None \<Rightarrow> \<exists>ts'. AnnotatingVisitor_visit_list ?self1 ks =
                      Inr (ts', ?self1\<lparr> counter := counter ?self1 + length (nodes_preorder_list ks) \<rparr>)
    | Some (i, a, v) \<Rightarrow> AnnotatingVisitor_visit_list ?self1 ks = Inl (unsupported_error ?self1 i a v))"
      using "6.IH"(2)[OF k1] by simp
    show ?thesis
    proof (cases "first_unsupported_in (nodes_preorder_list ks)")
      case n2: None
      with ih None k1 show ?thesis by (auto simp: first_unsupported_in_append add.assoc)
    next
      case s2: (Some r)
      obtain i a' v' where r: "r = (i, a', v')" by (cases r)
      with s2 ih None k1 show ?thesis by (simp add: first_unsupported_in_append)
    qed
  qed
qed

lemma first_unsupported_in_Some:
  "first_unsupported_in ns = Some (i, a, v) \<Longrightarrow>
     i < length ns \<and> ns ! i = (a, Some v) \<and> unsupported_value v"
proof (induction ns arbitrary: i rule: first_unsupported_in.induct)
  case 1
  then show ?case by simp
next
  case (2 a' ns)
  then obtain j where "first_unsupported_in ns = Some (j, a, v)" "i = Suc j"
    by (cases "first_unsupported_in ns") auto
  with "2.IH" show ?case by simp
next
  case (3 a' v' ns)
  show ?case
  proof (cases "unsupported_value v'")
    case True
    with "3.prems" show ?thesis by simp
  next
    case False
    with "3.prems" obtain j where j: "first_unsupported_in ns = Some (j, a, v)" "i = Suc j"
      by (cases "first_unsupported_in ns") auto
    with "3.IH"[OF False j(1)] show ?thesis by simp
  qed
qed

lemma first_unsupported_in_None:
  "first_unsupported_in ns = None \<Longrightarrow> (a, Some v) \<in> set ns \<Longrightarrow> \<not> unsupported_value v"
proof (induction ns rule: first_unsupported_in.induct)
  case 1
  then show ?case by simp
next
  case (2 a' ns)
  then show ?case by (cases "first_unsupported_in ns") auto
next
  case (3 a' v' ns)
  then show ?case by (cases "first_unsupported_in ns") (auto split: if_splits)
qed

lemma unsupported_value_spec: "unsupported_value v \<longleftrightarrow> spec_const_subkind v = None"
  by (cases v) (simp_all add: unsupported_value_def spec_const_subkind_simps
        isinstance_def issubclass_def)

lemma ex_module_pass1:
  "AnnotatingVisitor_visit (AnnotatingVisitor_init ''x = -3'' None) ex_module =
     Inr (ex_module_numbered, (AnnotatingVisitor_init ''x = -3'' None)\<lparr> counter := 7 \<rparr>)"
  by (simp add: ex_module_def ex_neg3_def ex_module_numbered_def numbered_def
      AnnotatingVisitor_init_def AnnotatingVisitor_decorate_def
      AnnotatingVisitor_visit_Constant_def isinstance_def issubclass_def)

subsection \<open>Pass 2: the fold\<close>

lemma isinstance_Num_cases:
  "isinstance_Num x \<Longrightarrow> \<exists>ca v. x = Constant ca v \<and>
     ((\<exists>i. v = PyInt i) \<or> (\<exists>f. v = PyFloat f) \<or> (\<exists>re im. v = PyComplex re im))"
  by (cases x; cases "case x of Constant ca v \<Rightarrow> v | _ \<Rightarrow> PyNone")
     (auto simp: isinstance_def issubclass_def)

lemma negate_operand_Inr:
  "RewriteUnarySubVisitor_negate_operand a x = Inr r \<Longrightarrow>
     \<exists>ca v v1 c. x = Constant ca v \<and> py_rsub0 v = Inr v1 \<and> col_offset a = Present c
        \<and> r = Constant (ca\<lparr>col_offset := Present c\<rparr>) v1"
  by (cases x) (auto split: sum.splits attribute.splits)









text \<open>
  C6, as stated, fails: in \<^verbatim>\<open>- -5\<close> the operand of the outer negation is a negation, not
  a literal, and yet the outer node does not stay. The inner negation folds first, the
  outer one then finds a literal and folds too; what is left is the literal 5 at the
  outer column.
\<close>

theorem fold_nested_negation_counterexample:
  "\<not> isinstance_Num (UnaryOp (at_col 2) USub attrs0 (Constant (at_col 3) (PyInt 5)))
   \<and> RewriteUnarySubVisitor_visit ex_double_neg =
       Inr (Constant ((at_col 3)\<lparr>col_offset := Present (Some 0)\<rparr>) (PyInt 5))
   \<and> RewriteUnarySubVisitor_visit ex_double_neg \<noteq> Inr ex_double_neg"
  by (simp add: ex_double_neg_def isinstance_def issubclass_def at_col_def)

text \<open>
  C6, amended. A unary operation that is not a negation, and a negation whose operand
  is not a numeric literal once the fold has been applied to that operand, stays a unary
  operation with its operator and attributes, wrapping the folded operand.
\<close>

theorem fold_keeps_other_unary:
  assumes "RewriteUnarySubVisitor_visit x = Inr x1"
    and "oc \<noteq> USub \<or> \<not> isinstance_Num x1"
  shows "RewriteUnarySubVisitor_visit (UnaryOp a oc oa x) = Inr (UnaryOp a oc oa x1)"
  using assms by auto

theorem fold_keeps_other_unary_witness:
  "RewriteUnarySubVisitor_visit (Constant (at_col 1) (PyInt 5)) =
       Inr (Constant (at_col 1) (PyInt 5))
   \<and> RewriteUnarySubVisitor_visit
         (UnaryOp (at_col 0) UAdd attrs0 (Constant (at_col 1) (PyInt 5))) =
       Inr (UnaryOp (at_col 0) UAdd attrs0 (Constant (at_col 1) (PyInt 5)))
   \<and> RewriteUnarySubVisitor_visit (Other ''Name'' (at_col 1) []) =
       Inr (Other ''Name'' (at_col 1) [])
   \<and> RewriteUnarySubVisitor_visit
         (UnaryOp (at_col 0) USub attrs0 (Other ''Name'' (at_col 1) [])) =
       Inr (UnaryOp (at_col 0) USub attrs0 (Other ''Name'' (at_col 1) []))"
proof -
  have h1: "RewriteUnarySubVisitor_visit (Constant (at_col 1) (PyInt 5)) =
              Inr (Constant (at_col 1) (PyInt 5))"
    by simp
  have h2: "RewriteUnarySubVisitor_visit (Other ''Name'' (at_col 1) []) =
              Inr (Other ''Name'' (at_col 1) [])"
    by simp
  have g1: "UAdd \<noteq> USub \<or> \<not> isinstance_Num (Constant (at_col 1) (PyInt 5))" by simp
  have g2: "USub \<noteq> USub \<or> \<not> isinstance_Num (Other ''Name'' (at_col 1) [])" by simp
  from fold_keeps_other_unary [OF h1 g1, of "at_col 0" attrs0]
       fold_keeps_other_unary [OF h2 g2, of "at_col 0" attrs0] h1 h2
  show ?thesis by simp
qed

lemma negate_operand_not_name_constant:
  "isinstance_Num x \<Longrightarrow> RewriteUnarySubVisitor_negate_operand a x = Inr r \<Longrightarrow>
     filter is_name_constant (nodes_preorder r) = []
     \<and> filter is_name_constant (nodes_preorder x) = []"
  by (auto dest!: isinstance_Num_cases simp: is_name_constant_def
        split: sum.splits attribute.splits)

text \<open>The fold leaves every constant that holds a boolean or the null value as it is.\<close>

lemma RewriteUnarySubVisitor_visit_name_constants:
  "RewriteUnarySubVisitor_visit t = Inr t' \<Longrightarrow>
     filter is_name_constant (nodes_preorder t') = filter is_name_constant (nodes_preorder t)"
  "RewriteUnarySubVisitor_visit_list ts = Inr ts' \<Longrightarrow>
     filter is_name_constant (nodes_preorder_list ts') =
       filter is_name_constant (nodes_preorder_list ts)"
proof (induction t and ts arbitrary: t' and ts'
       rule: RewriteUnarySubVisitor_visit_RewriteUnarySubVisitor_visit_list.induct)
  case (1 a v)
  then show ?case by auto
next
  case (2 a oc oa x)
  from "2.prems" obtain x1 where x1: "RewriteUnarySubVisitor_visit x = Inr x1"
    by (auto split: sum.splits)
  have ih: "filter is_name_constant (nodes_preorder x1) =
              filter is_name_constant (nodes_preorder x)"
    using "2.IH"[OF x1] .
  have n: "\<not> is_name_constant (a, None)" "\<not> is_name_constant (oa, None)"
    by (simp_all add: is_name_constant_def)
  show ?case
  proof (cases "oc = USub \<and> isinstance_Num x1")
    case True
    with x1 "2.prems" have r: "RewriteUnarySubVisitor_negate_operand a x1 = Inr t'" by simp
    from negate_operand_not_name_constant[OF _ r] True ih n show ?thesis by simp
  next
    case False
    with x1 "2.prems" have "t' = UnaryOp a oc oa x1" by auto
    then show ?thesis using ih n by simp
  qed
next
  case (3 a name kids)
  then show ?case by (auto split: sum.splits simp: is_name_constant_def)
next
  case (4 cls a kids)
  then show ?case by (auto split: sum.splits simp: is_name_constant_def)
next
  case 5
  then show ?case by simp
next
  case (6 k ks)
  from "6.prems" obtain k1 ks1 where k1: "RewriteUnarySubVisitor_visit k = Inr k1"
    and ks1: "RewriteUnarySubVisitor_visit_list ks = Inr ks1" and ts': "ts' = k1 # ks1"
    by (auto split: sum.splits)
  show ?case using "6.IH"(1)[OF k1] "6.IH"(2)[OF k1 ks1]
    by (simp add: ts')
qed

text \<open>
  C10. A unary operation on a boolean constant is left as it is by the fold, although a
  boolean is an instance of the number types: the instance check of \<^verbatim>\<open>Num\<close> excludes it.
  Over a whole tree, the constants that hold a boolean or the null value (those pass 1
  tags \<^verbatim>\<open>NameConstant\<close>) are after the fold what they were before, values and attributes.
\<close>

theorem fold_spares_booleans:
  "RewriteUnarySubVisitor_visit (UnaryOp a oc oa (Constant ca (PyBool b))) =
     Inr (UnaryOp a oc oa (Constant ca (PyBool b)))
   \<and> isinstance (PyBool b) [T_int, T_float, T_complex]
   \<and> (RewriteUnarySubVisitor_visit t = Inr t' \<longrightarrow> name_constants t' = name_constants t)"
  using RewriteUnarySubVisitor_visit_name_constants(1)[of t t']
  by (simp add: isinstance_def issubclass_def name_constants_def)

theorem fold_spares_booleans_witness:
  "RewriteUnarySubVisitor_visit ex_neg_true = Inr ex_neg_true
   \<and> name_constants ex_neg_true = [(at_col 1, Some (PyBool True))]"
  using fold_spares_booleans [of "at_col 0" USub attrs0 "at_col 1" True ex_neg_true ex_neg_true]
  by (simp add: ex_neg_true_def name_constants_def is_name_constant_def
        isinstance_def issubclass_def)

subsection \<open>Pass 3: source spans\<close>



text \<open>
  The span pass returns on every tree in which each node with a last token has a first
  token.
\<close>

lemma offsets_returns:
  "tokens_paired a \<Longrightarrow> \<exists>a1. AddSourceOffsetVisitor_offsets sid a = Inr a1"
  by (auto simp: tokens_paired_def AddSourceOffsetVisitor_offsets_def Let_def split: option.splits)

lemma AddSourceOffsetVisitor_visit_returns:
  "list_all tokens_paired (attrs_preorder t) \<Longrightarrow> \<exists>t'. AddSourceOffsetVisitor_visit sid t = Inr t'"
  "list_all tokens_paired (attrs_preorder_list ts) \<Longrightarrow>
     \<exists>ts'. AddSourceOffsetVisitor_visit_list sid ts = Inr ts'"
proof (induction sid t and sid ts
       rule: AddSourceOffsetVisitor_visit_AddSourceOffsetVisitor_visit_list.induct)
  case (1 sid a v)
  then obtain a1 where "AddSourceOffsetVisitor_offsets sid a = Inr a1"
    using offsets_returns by auto
  then show ?case by simp
next
  case (2 sid a oc oa x)
  from "2.prems" obtain a1 oa1 where a1: "AddSourceOffsetVisitor_offsets sid a = Inr a1"
    and oa1: "AddSourceOffsetVisitor_offsets sid oa = Inr oa1"
    using offsets_returns[of a sid] offsets_returns[of oa sid] by auto
  from "2.IH"[OF a1 oa1] "2.prems" obtain x1 where "AddSourceOffsetVisitor_visit sid x = Inr x1"
    by auto
  with a1 oa1 show ?case by simp
next
  case (3 sid a name kids)
  from "3.prems" obtain a1 where a1: "AddSourceOffsetVisitor_offsets sid a = Inr a1"
    using offsets_returns[of a sid] by auto
  from "3.IH"[OF a1] "3.prems" obtain k1 where "AddSourceOffsetVisitor_visit_list sid kids = Inr k1"
    by auto
  with a1 show ?case by simp
next
  case (4 sid cls a kids)
  from "4.prems" obtain a1 where a1: "AddSourceOffsetVisitor_offsets sid a = Inr a1"
    using offsets_returns[of a sid] by auto
  from "4.IH"[OF a1] "4.prems" obtain k1 where "AddSourceOffsetVisitor_visit_list sid kids = Inr k1"
    by auto
  with a1 show ?case by simp
next
  case (5 sid)
  show ?case by simp
next
  case (6 sid k ks)
  from "6.IH"(1) "6.prems" obtain k1 where k1: "AddSourceOffsetVisitor_visit sid k = Inr k1"
    by auto
  from "6.IH"(2)[OF k1] "6.prems" obtain ks1 where "AddSourceOffsetVisitor_visit_list sid ks = Inr ks1"
    by auto
  with k1 show ?case by simp
qed




text \<open>
  C8 fails in the span pass: \<^verbatim>\<open>generic_visit\<close> asks whether the node has a \<^verbatim>\<open>last_token\<close>
  and then reads its \<^verbatim>\<open>first_token\<close>. On a node that carries a last token only, the pass
  raises \<^verbatim>\<open>AttributeError\<close>, alone and inside the entry point (here with a tokenizer that
  covers no node). It returns on every other tree
  (\<open>AddSourceOffsetVisitor_visit_returns\<close>).
\<close>

theorem span_pass_raises_without_first_token:
  "AddSourceOffsetVisitor_visit 0 ex_last_token_only = Inl (AttributeError ''first_token'')
   \<and> annotate_python_ast no_tokens ex_last_token_only ''x'' None 0 =
       Inl (AttributeError ''first_token'')"
  by (simp add: ex_last_token_only_def AddSourceOffsetVisitor_offsets_def attrs0_def
      annotate_python_ast_def AnnotatingVisitor_init_def AnnotatingVisitor_decorate_def
      no_tokens_def set_tokens_def)

subsection \<open>The entry point: what is left of the numbering\<close>

lemma subseq_map_Some:
  "subseq ys (map f xs) \<Longrightarrow> \<exists>ns. ys = map f ns \<and> subseq ns xs"
proof (induction xs arbitrary: ys)
  case Nil
  then have "ys = []" by simp
  then show ?case by simp
next
  case (Cons x xs)
  show ?case
  proof (cases ys)
    case Nil
    then show ?thesis by simp
  next
    case (Cons y ys')
    show ?thesis
    proof (cases "y = f x")
      case True
      with Cons.prems Cons have "subseq ys' (map f xs)" by simp
      then obtain ns where "ys' = map f ns" "subseq ns xs" using Cons.IH by blast
      then have "ys = map f (x # ns) \<and> subseq (x # ns) (x # xs)" using True Cons by simp
      then show ?thesis by blast
    next
      case False
      with Cons.prems Cons have "subseq ys (map f xs)" by simp
      then obtain ns where "ys = map f ns" "subseq ns xs" using Cons.IH by blast
      then have "ys = map f ns \<and> subseq ns (x # xs)" by (simp add: list_emb_Cons)
      then show ?thesis by blast
    qed
  qed
qed

lemma subseq_set: "subseq xs ys \<Longrightarrow> set xs \<subseteq> set ys"
proof
  fix z assume "subseq xs ys" and "z \<in> set xs"
  then obtain w where "w \<in> set ys" "z = w" by (rule list_emb_set)
  then show "z \<in> set ys" by simp
qed

lemma subseq_sorted_wrt:
  "subseq xs ys \<Longrightarrow> sorted_wrt P ys \<Longrightarrow> sorted_wrt P xs"
proof (induction ys arbitrary: xs)
  case Nil
  from Nil.prems(1) have "xs = []" by (rule list_emb_Nil2)
  then show ?case by simp
next
  case (Cons y ys)
  show ?case
  proof (cases xs)
    case Nil
    then show ?thesis by simp
  next
    case c: (Cons x xs')
    show ?thesis
    proof (cases "x = y")
      case True
      with Cons.prems c have sub: "subseq xs' ys" by simp
      then have "set xs' \<subseteq> set ys" by (rule subseq_set)
      moreover have "sorted_wrt P xs'" using Cons.IH[OF sub] Cons.prems(2) by simp
      ultimately show ?thesis using Cons.prems(2) True c by auto
    next
      case False
      with Cons.prems c have "subseq xs ys" by simp
      then show ?thesis using Cons.IH Cons.prems(2) by simp
    qed
  qed
qed

lemma no_tokens_apply: "no_tokens source t = (\<lambda>p. None)"
  by (simp add: no_tokens_def fun_eq_iff)

lemma mark_tokens_none:
  "mark_tokens (\<lambda>p. None) p t = t"
  "mark_tokens_list (\<lambda>p. None) p i ts = ts"
  by (induction "\<lambda>p::nat list. None :: (token \<times> token) option" p t
        and "\<lambda>p::nat list. None :: (token \<times> token) option" p i ts
      rule: mark_tokens_mark_tokens_list.induct)
     (simp_all add: set_tokens_def)

lemma offsets_no_tokens:
  "first_token a = None \<Longrightarrow> last_token a = None \<Longrightarrow>
     AddSourceOffsetVisitor_offsets sid a =
       Inr (a\<lparr> lineno := None, col_offset := Present None, end_lineno := None,
              end_col_offset := None \<rparr>)"
  by (simp add: AddSourceOffsetVisitor_offsets_def)

lemma numbered_col_offset: "col_offset (numbered source i cls (at_col c)) = Present (Some c)"
  by (simp add: numbered_def at_col_def)

lemma ex_module_annotate:
  "annotate_python_ast no_tokens ex_module ''x = -3'' None 0 = Inr ex_module_annotated"
  apply (simp add: annotate_python_ast_def ex_module_pass1)
  apply (simp add: ex_module_numbered_def isinstance_def issubclass_def no_tokens_apply
           mark_tokens_none numbered_col_offset)
  apply (simp add: offsets_no_tokens numbered_def at_col_def attrs0_def no_span_def
           ex_module_annotated_def)
  done

text \<open>
  C7, as stated, fails: for \<^verbatim>\<open>x = -3\<close> pass 1 numbers seven nodes, the fold drops the
  negation (id 4) and its operator (id 5), and the five nodes left carry 0, 1, 2, 3, 6,
  which is not the range from 0 to 5.
\<close>

theorem annotate_ids_gap_counterexample:
  "annotate_python_ast no_tokens ex_module ''x = -3'' None 0 = Inr ex_module_annotated
   \<and> node_count ex_module_annotated = 5
   \<and> node_ids ex_module_annotated = [Some 0, Some 1, Some 2, Some 3, Some 6]
   \<and> node_ids ex_module_annotated \<noteq> map Some [0 ..< node_count ex_module_annotated]"
proof -
  have "[0 ..< 5] = [0, 1, 2, 3, 4::nat]" by code_simp
  then show ?thesis
    by (simp add: ex_module_annotate node_ids_def node_count_def ex_module_annotated_def
        numbered_def)
qed

subsection \<open>The entry point: unsupported literals\<close>

text \<open>
  C5. If some constant of the tree holds a value that passes none of the four tests, the
  entry point raises \<^verbatim>\<open>SyntaxException\<close>, and the exception carries the first such
  constant in pre-order, as \<^verbatim>\<open>generic_visit\<close> has just decorated it (its id is its
  pre-order position). The exception is the one pass 1 raises: nothing catches it, and the
  outcome is the same whatever the tokenizer and the source id, which only the later
  passes use.
\<close>

theorem annotate_raises_on_unsupported_literal:
  assumes "(a0, Some v0) \<in> set (nodes_preorder t)" and "unsupported_value v0"
  shows "\<exists>i a v. first_unsupported t = Some (i, a, v)
           \<and> i < node_count t \<and> nodes_preorder t ! i = (a, Some v)
           \<and> unsupported_value v \<and> spec_const_subkind v = None
           \<and> AnnotatingVisitor_visit (AnnotatingVisitor_init source class_types) t =
               Inl (unsupported_error (AnnotatingVisitor_init source class_types) i a v)
           \<and> annotate_python_ast asttokens t source class_types source_id =
               Inl (SyntaxException ''Invalid syntax (unsupported Python Constant AST node).''
                      (Constant (a\<lparr> source_code := Some source, node_id := Some i,
                                     ast_type := Some ''Constant'' \<rparr>) v))"
proof -
  let ?self = "AnnotatingVisitor_init source class_types"
  have "first_unsupported_in (nodes_preorder t) \<noteq> None"
    using first_unsupported_in_None assms by blast
  then obtain i a v where f: "first_unsupported_in (nodes_preorder t) = Some (i, a, v)"
    by (cases "first_unsupported_in (nodes_preorder t)") auto
  from first_unsupported_in_Some[OF f]
  have p: "i < node_count t" "nodes_preorder t ! i = (a, Some v)" "unsupported_value v"
    by (simp_all add: node_count_def length_nodes_preorder)
  have v1: "AnnotatingVisitor_visit ?self t = Inl (unsupported_error ?self i a v)"
    using AnnotatingVisitor_visit_outcome(1)[of ?self t] f by simp
  have e: "unsupported_error ?self i a v =
             SyntaxException ''Invalid syntax (unsupported Python Constant AST node).''
               (Constant (a\<lparr> source_code := Some source, node_id := Some i,
                              ast_type := Some ''Constant'' \<rparr>) v)"
    by (simp add: unsupported_error_def AnnotatingVisitor_init_def)
  have "annotate_python_ast asttokens t source class_types source_id =
          Inl (unsupported_error ?self i a v)"
    by (simp add: annotate_python_ast_def v1)
  with f p v1 e show ?thesis
    by (simp add: first_unsupported_def unsupported_value_spec)
qed

theorem annotate_raises_on_unsupported_literal_witness:
  "(at_col 4, Some PyEllipsis) \<in> set (nodes_preorder ex_ellipsis_module)
   \<and> unsupported_value PyEllipsis
   \<and> first_unsupported ex_ellipsis_module = Some (4, at_col 4, PyEllipsis)
   \<and> annotate_python_ast no_tokens ex_ellipsis_module ''y = ...'' None 0 =
       Inl (SyntaxException ''Invalid syntax (unsupported Python Constant AST node).''
              (Constant (numbered ''y = ...'' 4 ''Constant'' (at_col 4)) PyEllipsis))"
proof -
  have h1: "(at_col 4, Some PyEllipsis) \<in> set (nodes_preorder ex_ellipsis_module)"
    by (simp add: ex_ellipsis_module_def)
  have h2: "unsupported_value PyEllipsis"
    by (simp add: unsupported_value_def isinstance_def issubclass_def)
  have f: "first_unsupported ex_ellipsis_module = Some (4, at_col 4, PyEllipsis)"
    by (simp add: first_unsupported_def ex_ellipsis_module_def h2)
  from annotate_raises_on_unsupported_literal [OF h1 h2, of "''y = ...''" None no_tokens 0] f
  have "annotate_python_ast no_tokens ex_ellipsis_module ''y = ...'' None 0 =
       Inl (SyntaxException ''Invalid syntax (unsupported Python Constant AST node).''
              (Constant (numbered ''y = ...'' 4 ''Constant'' (at_col 4)) PyEllipsis))"
    by (auto simp: numbered_def)
  with h1 h2 f show ?thesis by simp
qed


end
